theory Spec2Isabelle
  imports Main "HOL-Library.Word" "HOL-Library.Multiset"
begin

unbundle bit_operations_syntax

section \<open>Data model of kernel/steely/posix/memory.c\<close>

text \<open>
  Kernel addresses are natural numbers; a C pointer that may be \<open>NULL\<close> is an
  \<open>option\<close>. Return codes are C \<open>int\<close>s, negative errno values on failure.
  \<open>size_t\<close> and \<open>unsigned long\<close> are 64-bit words (LP64), \<open>u32\<close>,
  \<open>unsigned int\<close> and \<open>atomic_t\<close> are 32-bit words, so that every
  arithmetic operation wraps as the C one does.
\<close>

type_synonym addr = nat

text \<open>Modelled from the spec: the errno numbers of the host
  (include/uapi/asm-generic/errno-base.h is not among the sources): OutOfMemory,
  PermissionDenied, NoSuchDevice and InvalidArgument.\<close>

definition ENOMEM :: int where "ENOMEM = 12"
definition EACCES :: int where "EACCES = 13"
definition ENODEV :: int where "ENODEV = 19"
definition EINVAL :: int where "EINVAL = 22"


text \<open>The minor numbers, as memory.c defines them.\<close>

definition UMM_PRIVATE :: nat where "UMM_PRIVATE = 0"
definition UMM_SHARED :: nat where "UMM_SHARED = 1"
definition SYS_GLOBAL :: nat where "SYS_GLOBAL = 2"

text \<open>Constants of the build that memory.c uses and does not define.\<close>

record config =
  PAGE_SHIFT :: nat
  MEMDEV_RTIOC_STAT :: "32 word"
  CONFIG_STEELY_SHARED_HEAPSZ :: "32 word"
  sizeof_nkvdso :: "64 word"
  XNVDSO_FEATURES :: "64 word"

record xnheap =
  membase :: addr
  heap_size :: "64 word"
  heap_free :: "64 word"
  heap_name :: string

record steely_umm =
  heap :: xnheap
  refcount :: "32 word"
  release :: "nat option"

record steely_process =
  sys_ppd_umm :: steely_umm

text \<open>The two regions a session can resolve to: \<open>&process->sys_ppd.umm\<close> of the
  current process and the global \<open>&steely_kernel_ppd.umm\<close>.\<close>

datatype umm_ptr = process_sys_ppd_umm | steely_kernel_ppd_umm

datatype pgprot = PAGE_KERNEL | PAGE_USER nat | pgprot_noncached pgprot

datatype vm_operations_struct = umm_vmops

record vm_area_struct =
  vm_start :: "64 word"
  vm_end :: "64 word"
  vm_page_prot :: pgprot
  vm_ops :: "vm_operations_struct option"
  vm_private_data :: "umm_ptr option"

record rtdm_fd =
  minor :: nat

datatype rtdm_device = umm_devices nat | sysmem_device

datatype gfp_flag = GFP_KERNEL | GFP_ZERO

datatype lock_ptr = umm_heap_lock umm_ptr | steely_heap_lock

record steely_memdev_stat =
  stat_size :: "64 word"
  stat_free :: "64 word"

text \<open>
  Every call that leaves memory.c (host virtual memory, the delegated heap, the driver
  layer, locks, the release callback) is logged, with its arguments, in the order of the
  calls. What such a call returns is given by the \<open>host\<close> record.
\<close>

datatype event =
    call_vmalloc "64 word" "gfp_flag list" pgprot
  | call_vfree addr
  | call_xnheap_init umm_ptr addr "64 word"
  | call_xnheap_destroy umm_ptr
  | call_release nat umm_ptr
  | call_steely_umm_alloc umm_ptr "64 word"
  | call_steely_umm_free umm_ptr "addr option"
  | call_rtdm_dev_register rtdm_device
  | call_rtdm_dev_unregister rtdm_device
  | call_rtdm_mmap_vmem vm_area_struct addr
  | call_rtdm_safe_copy_to_user addr steely_memdev_stat
  | call_xnlock_get_irqsave lock_ptr
  | call_xnlock_put_irqrestore lock_ptr

record host =
  xnarch_cache_aliasing :: bool
  vmalloc_result :: "addr option"
  xnheap_init_result :: int
  steely_umm_alloc_result :: "addr option"
  rtdm_dev_register_result :: "rtdm_device \<Rightarrow> int"
  rtdm_mmap_vmem_result :: int
  rtdm_safe_copy_to_user_result :: int

record kstate =
  current_process :: "steely_process option"
  steely_kernel_ppd :: steely_umm
  steely_heap :: xnheap
  nkvdso :: "addr option"
  nkvdso_features :: "64 word"
  trace :: "event list"

text \<open>A function either returns, or dereferences an invalid pointer: the kernel oopses,
  in the state it had reached.\<close>

datatype 'a outcome = Return 'a | Oops kstate

definition emit :: "event \<Rightarrow> kstate \<Rightarrow> kstate" where
  "emit e s = s\<lparr>trace := trace s @ [e]\<rparr>"

definition deref_umm :: "umm_ptr \<Rightarrow> kstate \<Rightarrow> steely_umm option" where
  "deref_umm p s =
     (case p of
        steely_kernel_ppd_umm \<Rightarrow> Some (steely_kernel_ppd s)
      | process_sys_ppd_umm \<Rightarrow> map_option sys_ppd_umm (current_process s))"

definition store_umm :: "umm_ptr \<Rightarrow> steely_umm \<Rightarrow> kstate \<Rightarrow> kstate" where
  "store_umm p u s =
     (case p of
        steely_kernel_ppd_umm \<Rightarrow> s\<lparr>steely_kernel_ppd := u\<rparr>
      | process_sys_ppd_umm \<Rightarrow>
          s\<lparr>current_process := map_option (\<lambda>pr. pr\<lparr>sys_ppd_umm := u\<rparr>) (current_process s)\<rparr>)"

subsection \<open>The delegated heap and the host, at their interfaces\<close>

definition xnheap_get_size :: "xnheap \<Rightarrow> 64 word" where
  "xnheap_get_size h = heap_size h"

definition xnheap_get_free :: "xnheap \<Rightarrow> 64 word" where
  "xnheap_get_free h = heap_free h"

definition xnheap_get_membase :: "xnheap \<Rightarrow> addr" where
  "xnheap_get_membase h = membase h"

text \<open>Modelled from the spec: \<open>xnheap_init\<close> (the heap capability's
  \<open>init(block,size)->heap|fail\<close>, not among the sources). On success the heap
  covers the block: its base is the block, its size and its free bytes are the size given
  (a fresh region's snapshot has \<open>free == size\<close>). On failure the heap is left as it
  was and the host's code is returned.\<close>

definition xnheap_init :: "host \<Rightarrow> umm_ptr \<Rightarrow> addr \<Rightarrow> 64 word \<Rightarrow> kstate \<Rightarrow> (int \<times> kstate) outcome" where
  "xnheap_init h p mem sz s =
     (let s1 = emit (call_xnheap_init p mem sz) s in
      if xnheap_init_result h \<noteq> 0 then Return (xnheap_init_result h, s1)
      else case deref_umm p s1 of
             None \<Rightarrow> Oops s1
           | Some u \<Rightarrow>
               Return (0, store_umm p
                 (u\<lparr>heap := (heap u)\<lparr>membase := mem, heap_size := sz, heap_free := sz\<rparr>\<rparr>) s1))"

text \<open>Modelled from the spec: \<open>PAGE_SIZE\<close> and \<open>PAGE_ALIGN\<close> of the host
  (include/linux/mm.h is not among the sources) round up to page granularity. The
  argument is the \<open>u32 size\<close> of \<open>steely_umm_init\<close> and the result is stored
  back into it, so the arithmetic is that of 32-bit words.\<close>

definition PAGE_SIZE :: "config \<Rightarrow> 32 word" where
  "PAGE_SIZE cfg = push_bit (PAGE_SHIFT cfg) 1"

definition PAGE_ALIGN :: "config \<Rightarrow> 32 word \<Rightarrow> 32 word" where
  "PAGE_ALIGN cfg x = (x + (PAGE_SIZE cfg - 1)) AND NOT (PAGE_SIZE cfg - 1)"

subsection \<open>Region life cycle: steely_umm_init, steely_umm_destroy\<close>

text \<open>\<open>secondary_mode_only()\<close> is a debug assertion on the calling context and
  \<open>smp_mb()\<close> a memory barrier; neither changes the state modelled here.\<close>

definition steely_umm_init ::
  "host \<Rightarrow> config \<Rightarrow> umm_ptr \<Rightarrow> 32 word \<Rightarrow> nat option \<Rightarrow> kstate \<Rightarrow> (int \<times> kstate) outcome" where
  "steely_umm_init h cfg umm size0 rel s =
     (let sz = PAGE_ALIGN cfg size0;
          s1 = emit (call_vmalloc (ucast sz) [GFP_KERNEL, GFP_ZERO]
                 (if xnarch_cache_aliasing h then pgprot_noncached PAGE_KERNEL else PAGE_KERNEL)) s
      in case vmalloc_result h of
           None \<Rightarrow> Return (- ENOMEM, s1)
         | Some basemem \<Rightarrow>
             (case xnheap_init h umm basemem (ucast sz) s1 of
                Oops s2 \<Rightarrow> Oops s2
              | Return (ret, s2) \<Rightarrow>
                  if ret \<noteq> 0 then Return (ret, emit (call_vfree basemem) s2)
                  else (case deref_umm umm s2 of
                          None \<Rightarrow> Oops s2
                        | Some u \<Rightarrow>
                            Return (0, store_umm umm (u\<lparr>release := rel, refcount := 1\<rparr>) s2))))"

definition steely_umm_destroy :: "umm_ptr option \<Rightarrow> kstate \<Rightarrow> kstate outcome" where
  "steely_umm_destroy umm s =
     (case umm of
        None \<Rightarrow> Oops s
      | Some p \<Rightarrow>
          (case deref_umm p s of
             None \<Rightarrow> Oops s
           | Some u \<Rightarrow>
               (let u1 = u\<lparr>refcount := refcount u - 1\<rparr>;
                    s1 = store_umm p u1 s
                in if refcount u1 = 0 then
                     (let s2 = emit (call_xnheap_destroy p) s1;
                          s3 = emit (call_vfree (xnheap_get_membase (heap u1))) s2
                      in case release u1 of
                           None \<Rightarrow> Return s3
                         | Some cb \<Rightarrow> Return (emit (call_release cb p) s3))
                   else Return s1)))"

subsection \<open>Mapping sessions: umm_vmopen, umm_vmclose, umm_from_fd, umm_mmap\<close>

definition umm_vmopen :: "vm_area_struct \<Rightarrow> kstate \<Rightarrow> kstate outcome" where
  "umm_vmopen vma s =
     (case vm_private_data vma of
        None \<Rightarrow> Oops s
      | Some p \<Rightarrow>
          (case deref_umm p s of
             None \<Rightarrow> Oops s
           | Some u \<Rightarrow> Return (store_umm p (u\<lparr>refcount := refcount u + 1\<rparr>) s)))"

definition umm_vmclose :: "vm_area_struct \<Rightarrow> kstate \<Rightarrow> kstate outcome" where
  "umm_vmclose vma s = steely_umm_destroy (vm_private_data vma) s"

text \<open>\<open>steely_current_process()\<close> is the field \<open>current_process\<close> of the state;
  \<open>rtdm_fd_minor(fd)\<close> reads \<open>fd->minor\<close>, so it needs a valid \<open>fd\<close>.\<close>

definition umm_from_fd :: "rtdm_fd option \<Rightarrow> kstate \<Rightarrow> umm_ptr option outcome" where
  "umm_from_fd fd s =
     (case current_process s of
        None \<Rightarrow> Return None
      | Some process \<Rightarrow>
          (case fd of
             None \<Rightarrow> Oops s
           | Some f \<Rightarrow>
               if minor f = UMM_PRIVATE then Return (Some process_sys_ppd_umm)
               else Return (Some steely_kernel_ppd_umm)))"

definition umm_mmap ::
  "host \<Rightarrow> rtdm_fd option \<Rightarrow> vm_area_struct \<Rightarrow> kstate \<Rightarrow> (int \<times> vm_area_struct \<times> kstate) outcome" where
  "umm_mmap h fd vma s =
     (case umm_from_fd fd s of
        Oops s' \<Rightarrow> Oops s'
      | Return umm \<Rightarrow>
          if fd = None then Return (- ENODEV, vma, s)
          else
            (let len = vm_end vma - vm_start vma in
             case umm of
               None \<Rightarrow> Oops s
             | Some p \<Rightarrow>
                 (case deref_umm p s of
                    None \<Rightarrow> Oops s
                  | Some u \<Rightarrow>
                      if len \<noteq> xnheap_get_size (heap u) then Return (- EINVAL, vma, s)
                      else
                        (let vma1 = vma\<lparr>vm_private_data := umm, vm_ops := Some umm_vmops\<rparr>;
                             vma2 = (if xnarch_cache_aliasing h
                                     then vma1\<lparr>vm_page_prot := pgprot_noncached (vm_page_prot vma1)\<rparr>
                                     else vma1);
                             s1 = emit (call_rtdm_mmap_vmem vma2 (xnheap_get_membase (heap u))) s;
                             ret = rtdm_mmap_vmem_result h
                         in if ret \<noteq> 0 then Return (ret, vma2, s1)
                            else Return (0, vma2,
                                   store_umm p (u\<lparr>refcount := refcount u + 1\<rparr>) s1)))))"

text \<open>\<open>umm_get_unmapped_area\<close> is compiled on builds without MMU. Its result is an
  \<open>unsigned long\<close>, so \<open>-ENODEV\<close> is returned converted to that type.\<close>

definition umm_get_unmapped_area ::
  "config \<Rightarrow> rtdm_fd option \<Rightarrow> 64 word \<Rightarrow> 64 word \<Rightarrow> 64 word \<Rightarrow> kstate \<Rightarrow> 64 word outcome" where
  "umm_get_unmapped_area cfg fd len pgoff flags s =
     (case umm_from_fd fd s of
        Oops s' \<Rightarrow> Oops s'
      | Return None \<Rightarrow> Return (word_of_int (- ENODEV))
      | Return (Some p) \<Rightarrow>
          (case deref_umm p s of
             None \<Rightarrow> Oops s
           | Some u \<Rightarrow>
               if pgoff = 0 then Return (word_of_nat (xnheap_get_membase (heap u)))
               else Return (push_bit (PAGE_SHIFT cfg) pgoff)))"

subsection \<open>Stat queries: stat_umm, do_umm_ioctls, sysmem_open, do_sysmem_ioctls\<close>

definition stat_umm :: "host \<Rightarrow> rtdm_fd option \<Rightarrow> addr \<Rightarrow> kstate \<Rightarrow> (int \<times> kstate) outcome" where
  "stat_umm h fd u_stat s =
     (case umm_from_fd fd s of
        Oops s' \<Rightarrow> Oops s'
      | Return None \<Rightarrow> Return (- ENODEV, s)
      | Return (Some p) \<Rightarrow>
          (case deref_umm p s of
             None \<Rightarrow> Oops s
           | Some u \<Rightarrow>
               (let s1 = emit (call_xnlock_get_irqsave (umm_heap_lock p)) s;
                    stat = \<lparr>stat_size = xnheap_get_size (heap u),
                            stat_free = xnheap_get_free (heap u)\<rparr>;
                    s2 = emit (call_xnlock_put_irqrestore (umm_heap_lock p)) s1
                in Return (rtdm_safe_copy_to_user_result h,
                           emit (call_rtdm_safe_copy_to_user u_stat stat) s2))))"

definition do_umm_ioctls ::
  "host \<Rightarrow> config \<Rightarrow> rtdm_fd option \<Rightarrow> 32 word \<Rightarrow> addr \<Rightarrow> kstate \<Rightarrow> (int \<times> kstate) outcome" where
  "do_umm_ioctls h cfg fd request arg s =
     (if request = MEMDEV_RTIOC_STAT cfg then stat_umm h fd arg s
      else Return (- EINVAL, s))"


definition do_sysmem_ioctls ::
  "host \<Rightarrow> config \<Rightarrow> rtdm_fd option \<Rightarrow> 32 word \<Rightarrow> addr \<Rightarrow> kstate \<Rightarrow> int \<times> kstate" where
  "do_sysmem_ioctls h cfg fd request arg s =
     (if request = MEMDEV_RTIOC_STAT cfg then
        (let s1 = emit (call_xnlock_get_irqsave steely_heap_lock) s;
             stat = \<lparr>stat_size = xnheap_get_size (steely_heap s),
                     stat_free = xnheap_get_free (steely_heap s)\<rparr>;
             s2 = emit (call_xnlock_put_irqrestore steely_heap_lock) s1
         in (rtdm_safe_copy_to_user_result h, emit (call_rtdm_safe_copy_to_user arg stat) s2))
      else (- EINVAL, s))"

text \<open>Both ioctl entry points of each driver forward to the common handler.\<close>

definition umm_ioctl_rt ::
  "host \<Rightarrow> config \<Rightarrow> rtdm_fd option \<Rightarrow> 32 word \<Rightarrow> addr \<Rightarrow> kstate \<Rightarrow> (int \<times> kstate) outcome" where
  "umm_ioctl_rt h cfg fd request arg s = do_umm_ioctls h cfg fd request arg s"

definition umm_ioctl_nrt ::
  "host \<Rightarrow> config \<Rightarrow> rtdm_fd option \<Rightarrow> 32 word \<Rightarrow> addr \<Rightarrow> kstate \<Rightarrow> (int \<times> kstate) outcome" where
  "umm_ioctl_nrt h cfg fd request arg s = do_umm_ioctls h cfg fd request arg s"

definition sysmem_ioctl_rt ::
  "host \<Rightarrow> config \<Rightarrow> rtdm_fd option \<Rightarrow> 32 word \<Rightarrow> addr \<Rightarrow> kstate \<Rightarrow> int \<times> kstate" where
  "sysmem_ioctl_rt h cfg fd request arg s = do_sysmem_ioctls h cfg fd request arg s"




subsection \<open>Registry start-up and teardown: steely_memdev_init, steely_memdev_cleanup\<close>

text \<open>Modelled from the spec: \<open>steely_umm_set_name\<close>, \<open>steely_umm_alloc\<close> and
  \<open>steely_umm_free\<close> (memory.h is not among the sources) delegate to the heap
  capability of the region: naming sets the tag, allocation returns the block the heap
  hands out or \<open>NULL\<close>, freeing gives a block back. \<open>rtdm_dev_register\<close> and
  \<open>rtdm_dev_unregister\<close> belong to the driver layer.\<close>

definition steely_umm_set_name :: "umm_ptr \<Rightarrow> string \<Rightarrow> kstate \<Rightarrow> kstate outcome" where
  "steely_umm_set_name p name s =
     (case deref_umm p s of
        None \<Rightarrow> Oops s
      | Some u \<Rightarrow> Return (store_umm p (u\<lparr>heap := (heap u)\<lparr>heap_name := name\<rparr>\<rparr>) s))"

definition steely_umm_alloc :: "host \<Rightarrow> umm_ptr \<Rightarrow> 64 word \<Rightarrow> kstate \<Rightarrow> addr option \<times> kstate" where
  "steely_umm_alloc h p sz s = (steely_umm_alloc_result h, emit (call_steely_umm_alloc p sz) s)"

definition steely_umm_free :: "umm_ptr \<Rightarrow> addr option \<Rightarrow> kstate \<Rightarrow> kstate" where
  "steely_umm_free p ptr s = emit (call_steely_umm_free p ptr) s"

definition rtdm_dev_register :: "host \<Rightarrow> rtdm_device \<Rightarrow> kstate \<Rightarrow> int \<times> kstate" where
  "rtdm_dev_register h dev s = (rtdm_dev_register_result h dev, emit (call_rtdm_dev_register dev) s)"

definition rtdm_dev_unregister :: "rtdm_device \<Rightarrow> kstate \<Rightarrow> kstate" where
  "rtdm_dev_unregister dev s = emit (call_rtdm_dev_unregister dev) s"

definition init_vdso :: "config \<Rightarrow> kstate \<Rightarrow> kstate outcome" where
  "init_vdso cfg s =
     (case nkvdso s of
        None \<Rightarrow> Oops s
      | Some a \<Rightarrow> Return (s\<lparr>nkvdso_features := XNVDSO_FEATURES cfg\<rparr>))"

text \<open>The labels of \<open>steely_memdev_init\<close>: each falls through to the next.\<close>

definition fail_vdso :: "int \<Rightarrow> kstate \<Rightarrow> (int \<times> kstate) outcome" where
  "fail_vdso ret s =
     (case steely_umm_destroy (Some steely_kernel_ppd_umm) s of
        Oops s' \<Rightarrow> Oops s'
      | Return s' \<Rightarrow> Return (ret, s'))"

definition fail_private :: "int \<Rightarrow> kstate \<Rightarrow> (int \<times> kstate) outcome" where
  "fail_private ret s = fail_vdso ret (steely_umm_free steely_kernel_ppd_umm (nkvdso s) s)"

definition fail_shared :: "int \<Rightarrow> kstate \<Rightarrow> (int \<times> kstate) outcome" where
  "fail_shared ret s = fail_private ret (rtdm_dev_unregister (umm_devices UMM_PRIVATE) s)"

definition fail_sysmem :: "int \<Rightarrow> kstate \<Rightarrow> (int \<times> kstate) outcome" where
  "fail_sysmem ret s = fail_shared ret (rtdm_dev_unregister (umm_devices UMM_SHARED) s)"

definition steely_memdev_init :: "host \<Rightarrow> config \<Rightarrow> kstate \<Rightarrow> (int \<times> kstate) outcome" where
  "steely_memdev_init h cfg s =
     (case steely_umm_init h cfg steely_kernel_ppd_umm
             (CONFIG_STEELY_SHARED_HEAPSZ cfg * 1024) None s of
        Oops s' \<Rightarrow> Oops s'
      | Return (ret, s1) \<Rightarrow>
          if ret \<noteq> 0 then Return (ret, s1)
          else
            (case steely_umm_set_name steely_kernel_ppd_umm ''shared heap'' s1 of
               Oops s' \<Rightarrow> Oops s'
             | Return s2 \<Rightarrow>
                 (case steely_umm_alloc h steely_kernel_ppd_umm (sizeof_nkvdso cfg) s2 of
                    (ptr, s3) \<Rightarrow>
                      (let s4 = s3\<lparr>nkvdso := ptr\<rparr> in
                       if nkvdso s4 = None then fail_vdso (- ENOMEM) s4
                       else
                         (case init_vdso cfg s4 of
                            Oops s' \<Rightarrow> Oops s'
                          | Return s5 \<Rightarrow>
                              (case rtdm_dev_register h (umm_devices UMM_PRIVATE) s5 of
                                 (ret1, s6) \<Rightarrow>
                                   if ret1 \<noteq> 0 then fail_private ret1 s6
                                   else
                                     (case rtdm_dev_register h (umm_devices UMM_SHARED) s6 of
                                        (ret2, s7) \<Rightarrow>
                                          if ret2 \<noteq> 0 then fail_shared ret2 s7
                                          else
                                            (case rtdm_dev_register h sysmem_device s7 of
                                               (ret3, s8) \<Rightarrow>
                                                 if ret3 \<noteq> 0 then fail_sysmem ret3 s8
                                                 else Return (0, s8)))))))))"

definition steely_memdev_cleanup :: "kstate \<Rightarrow> kstate outcome" where
  "steely_memdev_cleanup s =
     (let s1 = rtdm_dev_unregister sysmem_device s;
          s2 = rtdm_dev_unregister (umm_devices UMM_SHARED) s1;
          s3 = rtdm_dev_unregister (umm_devices UMM_PRIVATE) s2;
          s4 = steely_umm_free steely_kernel_ppd_umm (nkvdso s3) s3
      in steely_umm_destroy (Some steely_kernel_ppd_umm) s4)"

text \<open>The five steps of start-up, numbered as the design numbers them: the calls a
  successful step makes, the calls of a step that fails, the code it fails with, and the
  calls that undo a completed step.\<close>

definition vmalloc_prot :: "host \<Rightarrow> pgprot" where
  "vmalloc_prot h = (if xnarch_cache_aliasing h then pgprot_noncached PAGE_KERNEL else PAGE_KERNEL)"

definition shared_heap_bytes :: "config \<Rightarrow> 64 word" where
  "shared_heap_bytes cfg = ucast (PAGE_ALIGN cfg (CONFIG_STEELY_SHARED_HEAPSZ cfg * 1024))"

definition step_calls :: "host \<Rightarrow> config \<Rightarrow> nat \<Rightarrow> event list" where
  "step_calls h cfg k =
     (if k = 1 then
        (case vmalloc_result h of
           None \<Rightarrow> [call_vmalloc (shared_heap_bytes cfg) [GFP_KERNEL, GFP_ZERO] (vmalloc_prot h)]
         | Some b \<Rightarrow>
             [call_vmalloc (shared_heap_bytes cfg) [GFP_KERNEL, GFP_ZERO] (vmalloc_prot h),
              call_xnheap_init steely_kernel_ppd_umm b (shared_heap_bytes cfg)])
      else if k = 2 then [call_steely_umm_alloc steely_kernel_ppd_umm (sizeof_nkvdso cfg)]
      else if k = 3 then [call_rtdm_dev_register (umm_devices UMM_PRIVATE)]
      else if k = 4 then [call_rtdm_dev_register (umm_devices UMM_SHARED)]
      else if k = 5 then [call_rtdm_dev_register sysmem_device]
      else [])"

definition failed_step_calls :: "host \<Rightarrow> config \<Rightarrow> nat \<Rightarrow> event list" where
  "failed_step_calls h cfg k =
     (if k = 1 then
        (case vmalloc_result h of
           None \<Rightarrow> step_calls h cfg 1
         | Some b \<Rightarrow> step_calls h cfg 1 @ [call_vfree b])
      else step_calls h cfg k)"

definition step_result :: "host \<Rightarrow> nat \<Rightarrow> int" where
  "step_result h k =
     (if k = 1 then (case vmalloc_result h of None \<Rightarrow> - ENOMEM | Some b \<Rightarrow> xnheap_init_result h)
      else if k = 2 then (case steely_umm_alloc_result h of None \<Rightarrow> - ENOMEM | Some a \<Rightarrow> 0)
      else if k = 3 then rtdm_dev_register_result h (umm_devices UMM_PRIVATE)
      else if k = 4 then rtdm_dev_register_result h (umm_devices UMM_SHARED)
      else if k = 5 then rtdm_dev_register_result h sysmem_device
      else 0)"

definition undo_calls :: "host \<Rightarrow> nat \<Rightarrow> event list" where
  "undo_calls h k =
     (if k = 1 then
        (case vmalloc_result h of
           None \<Rightarrow> []
         | Some b \<Rightarrow> [call_xnheap_destroy steely_kernel_ppd_umm, call_vfree b])
      else if k = 2 then [call_steely_umm_free steely_kernel_ppd_umm (steely_umm_alloc_result h)]
      else if k = 3 then [call_rtdm_dev_unregister (umm_devices UMM_PRIVATE)]
      else if k = 4 then [call_rtdm_dev_unregister (umm_devices UMM_SHARED)]
      else if k = 5 then [call_rtdm_dev_unregister sysmem_device]
      else [])"

subsection \<open>Sequences of mapping sessions\<close>

text \<open>The host's mapping facility drives the handlers: a session is opened by
  \<open>umm_mmap\<close> (and exists when it returned 0) or duplicated by \<open>umm_vmopen\<close>, and
  closed by \<open>umm_vmclose\<close>. \<open>open_sessions\<close> returns the views now open.\<close>

datatype session_request =
    Open_mapping "rtdm_fd option" vm_area_struct
  | Duplicate_mapping vm_area_struct

fun open_sessions ::
  "host \<Rightarrow> session_request list \<Rightarrow> kstate \<Rightarrow> (vm_area_struct list \<times> kstate) outcome" where
  "open_sessions h [] s = Return ([], s)"
| "open_sessions h (Open_mapping fd vma # rs) s =
     (case umm_mmap h fd vma s of
        Oops s' \<Rightarrow> Oops s'
      | Return (ret, vma', s') \<Rightarrow>
          (case open_sessions h rs s' of
             Oops s'' \<Rightarrow> Oops s''
           | Return (vs, s'') \<Rightarrow> Return (if ret = 0 then vma' # vs else vs, s'')))"
| "open_sessions h (Duplicate_mapping vma # rs) s =
     (case umm_vmopen vma s of
        Oops s' \<Rightarrow> Oops s'
      | Return s' \<Rightarrow>
          (case open_sessions h rs s' of
             Oops s'' \<Rightarrow> Oops s''
           | Return (vs, s'') \<Rightarrow> Return (vma # vs, s'')))"

fun close_sessions :: "vm_area_struct list \<Rightarrow> kstate \<Rightarrow> kstate outcome" where
  "close_sessions [] s = Return s"
| "close_sessions (v # vs) s =
     (case umm_vmclose v s of
        Oops s' \<Rightarrow> Oops s'
      | Return s' \<Rightarrow> close_sessions vs s')"

text \<open>A request that opens a view of region \<open>p\<close>: a duplicate of a view bound to
  \<open>p\<close>, or a mapping request whose session resolves to \<open>p\<close>, whose length is the
  region's size and whose binding the host accepts.\<close>

fun opens_view_of :: "host \<Rightarrow> umm_ptr \<Rightarrow> kstate \<Rightarrow> session_request \<Rightarrow> bool" where
  "opens_view_of h p s (Duplicate_mapping vma) = (vm_private_data vma = Some p)"
| "opens_view_of h p s (Open_mapping fd vma) =
     (fd \<noteq> None \<and> umm_from_fd fd s = Return (Some p) \<and>
      map_option (\<lambda>u. xnheap_get_size (heap u)) (deref_umm p s) = Some (vm_end vma - vm_start vma) \<and>
      rtdm_mmap_vmem_result h = 0)"

definition refcount_of :: "umm_ptr \<Rightarrow> kstate \<Rightarrow> 32 word option" where
  "refcount_of p s = map_option refcount (deref_umm p s)"

section \<open>Data model of kernel/steely/lock.c\<close>

text \<open>
  lock.c defines the out-of-line entry points \<open>___xnlock_get\<close> and
  \<open>___xnlock_put\<close> (compiled under \<open>CONFIG_STEELY_ARCH_OUTOFLINE_XNLOCK\<close>, on
  SMP or lock-debugging builds). Each passes its lock and its debug context to the inline
  implementation \<open>____xnlock_get\<close> or \<open>____xnlock_put\<close> of lock.h, which is not
  among the sources and is a parameter here: any function of the lock, the context and
  the state of the locks. Isabelle names cannot start with an underscore; the prefix
  \<open>outofline\<close> stands for the three underscores.
\<close>

definition outofline_xnlock_get ::
  "('lock \<Rightarrow> 'ctx \<Rightarrow> 'st \<Rightarrow> int \<times> 'st) \<Rightarrow> 'lock \<Rightarrow> 'ctx \<Rightarrow> 'st \<Rightarrow> int \<times> 'st" where
  "outofline_xnlock_get inline_xnlock_get lock ctx s = inline_xnlock_get lock ctx s"

definition outofline_xnlock_put ::
  "('lock \<Rightarrow> 'ctx \<Rightarrow> 'st \<Rightarrow> 'st) \<Rightarrow> 'lock \<Rightarrow> 'ctx \<Rightarrow> 'st \<Rightarrow> 'st" where
  "outofline_xnlock_put inline_xnlock_put lock ctx s = inline_xnlock_put lock ctx s"

section \<open>Concrete inputs\<close>

text \<open>A build with 4 KiB pages and a 4 KiB shared heap; a host on which every call
  succeeds; the state before start-up, with no process attached to the caller; and a
  state in which the caller has a process whose private region and the shared region are
  live, one page each, with reference count 1.\<close>

definition cfg0 :: config where
  "cfg0 = \<lparr>PAGE_SHIFT = 12, MEMDEV_RTIOC_STAT = 0x80104D00, CONFIG_STEELY_SHARED_HEAPSZ = 4,
            sizeof_nkvdso = 8, XNVDSO_FEATURES = 1\<rparr>"

definition good_host :: host where
  "good_host = \<lparr>xnarch_cache_aliasing = False, vmalloc_result = Some 0x200000,
                 xnheap_init_result = 0, steely_umm_alloc_result = Some 0x200040,
                 rtdm_dev_register_result = (\<lambda>dev. 0), rtdm_mmap_vmem_result = 0,
                 rtdm_safe_copy_to_user_result = 0\<rparr>"

definition empty_umm :: steely_umm where
  "empty_umm = \<lparr>heap = \<lparr>membase = 0, heap_size = 0, heap_free = 0, heap_name = []\<rparr>,
                 refcount = 0, release = None\<rparr>"

definition boot_state :: kstate where
  "boot_state = \<lparr>current_process = None, steely_kernel_ppd = empty_umm,
                  steely_heap = \<lparr>membase = 0x100000, heap_size = 0x40000, heap_free = 0x3F000,
                                  heap_name = ''system heap''\<rparr>,
                  nkvdso = None, nkvdso_features = 0, trace = []\<rparr>"

definition private_umm :: steely_umm where
  "private_umm = \<lparr>heap = \<lparr>membase = 0x300000, heap_size = 4096, heap_free = 4096,
                             heap_name = ''private heap''\<rparr>,
                   refcount = 1, release = Some 7\<rparr>"

definition shared_umm :: steely_umm where
  "shared_umm = \<lparr>heap = \<lparr>membase = 0x200000, heap_size = 4096, heap_free = 4088,
                            heap_name = ''shared heap''\<rparr>,
                  refcount = 1, release = None\<rparr>"

definition running_state :: kstate where
  "running_state = boot_state\<lparr>current_process := Some \<lparr>sys_ppd_umm = private_umm\<rparr>,
                                steely_kernel_ppd := shared_umm, nkvdso := Some 0x200040,
                                nkvdso_features := 1\<rparr>"

definition private_fd :: rtdm_fd where
  "private_fd = \<lparr>minor = UMM_PRIVATE\<rparr>"


definition page_vma :: vm_area_struct where
  "page_vma = \<lparr>vm_start = 0x7F0000000000, vm_end = 0x7F0000001000, vm_page_prot = PAGE_USER 0,
                vm_ops = None, vm_private_data = None\<rparr>"

definition half_page_vma :: vm_area_struct where
  "half_page_vma = page_vma\<lparr>vm_end := 0x7F0000000800\<rparr>"

definition bound_vma :: vm_area_struct where
  "bound_vma = page_vma\<lparr>vm_private_data := Some process_sys_ppd_umm, vm_ops := Some umm_vmops\<rparr>"

definition forked_vma :: vm_area_struct where
  "forked_vma = bound_vma\<lparr>vm_start := 0x7F0000100000, vm_end := 0x7F0000101000\<rparr>"


definition bind_fail_host :: host where
  "bind_fail_host = good_host\<lparr>rtdm_mmap_vmem_result := - ENOMEM\<rparr>"


definition heap_einval_host :: host where
  "heap_einval_host = good_host\<lparr>xnheap_init_result := - EINVAL\<rparr>"

definition heap_enomem_host :: host where
  "heap_enomem_host = good_host\<lparr>xnheap_init_result := - ENOMEM\<rparr>"

definition no_memory_host :: host where
  "no_memory_host = good_host\<lparr>vmalloc_result := None\<rparr>"

definition shared_register_fail_host :: host where
  "shared_register_fail_host =
     good_host\<lparr>rtdm_dev_register_result :=
       (\<lambda>dev. if dev = umm_devices UMM_SHARED then - EINVAL else 0)\<rparr>"

section \<open>Basic facts about the state\<close>

lemma deref_umm_emit: "deref_umm p (emit e s) = deref_umm p s"
  by (simp add: deref_umm_def emit_def split: umm_ptr.splits)

lemma deref_umm_store_same:
  "deref_umm p s = Some u \<Longrightarrow> deref_umm p (store_umm p u' s) = Some u'"
  by (auto simp: deref_umm_def store_umm_def split: umm_ptr.splits)

lemma trace_store_umm: "trace (store_umm p u s) = trace s"
  by (simp add: store_umm_def split: umm_ptr.splits)

lemma trace_emit: "trace (emit e s) = trace s @ [e]"
  by (simp add: emit_def)

lemmas errno_defs = ENOMEM_def EACCES_def ENODEV_def EINVAL_def

lemmas concrete_defs = cfg0_def good_host_def empty_umm_def boot_state_def private_umm_def
  shared_umm_def running_state_def private_fd_def page_vma_def UMM_PRIVATE_def UMM_SHARED_def

section \<open>Requests from a caller without a process context\<close>

text \<open>A stat request on a user-mappable device, issued where no process is attached,
  fails with \<open>-ENODEV\<close> and leaves the state as it was: \<open>stat_umm\<close> tests the
  region that \<open>umm_from_fd\<close> returned.\<close>

lemma stat_umm_no_process:
  "current_process s = None \<Longrightarrow> stat_umm h fd u_stat s = Return (- ENODEV, s)"
  by (simp add: stat_umm_def umm_from_fd_def)

lemma do_umm_ioctls_no_process:
  "current_process s = None \<Longrightarrow>
   do_umm_ioctls h cfg fd (MEMDEV_RTIOC_STAT cfg) arg s = Return (- ENODEV, s)"
  by (simp add: do_umm_ioctls_def stat_umm_no_process)

lemma umm_get_unmapped_area_no_process:
  "current_process s = None \<Longrightarrow>
   umm_get_unmapped_area cfg fd len pgoff flags s = Return (word_of_int (- ENODEV))"
  by (simp add: umm_get_unmapped_area_def umm_from_fd_def)

text \<open>\<open>umm_mmap\<close> tests \<open>fd\<close> where its siblings test \<open>umm\<close>. With a valid
  \<open>fd\<close> and no process attached the test passes and the \<open>NULL\<close> region is
  dereferenced by \<open>xnheap_get_size\<close>.\<close>

lemma umm_mmap_no_process:
  "current_process s = None \<Longrightarrow> umm_mmap h (Some f) vma s = Oops s"
  by (simp add: umm_mmap_def umm_from_fd_def)

text \<open>C1. A mapping or stat request on a user-mappable memory device, issued where no
  region resolves for the session, should fail with NoSuchDevice and change nothing.
  The stat request does (\<open>stat_umm_no_process\<close>). The mapping request does not: on
  the private device, before any process is attached, \<open>umm_mmap\<close> does not return
  \<open>-ENODEV\<close> but dereferences the missing region.\<close>

theorem umm_mmap_without_process_oops:
  "umm_mmap good_host (Some private_fd) page_vma boot_state = Oops boot_state \<and>
   Oops boot_state \<noteq> Return (- ENODEV, page_vma, boot_state)"
  by (simp add: umm_mmap_def umm_from_fd_def boot_state_def)

section \<open>Releasing a reference\<close>

text \<open>C2. \<open>steely_umm_destroy\<close> decrements the reference count of the region. When
  the count was 1, so that the decrement reaches zero, it destroys the delegated heap, then
  returns the backing block to the host, then calls the release callback if one is
  registered, in this order; on any other decrement it makes none of these calls. Nothing
  else changes.\<close>

theorem steely_umm_destroy_zero_transition:
  assumes "deref_umm p s = Some u"
  shows "steely_umm_destroy (Some p) s =
           Return ((store_umm p (u\<lparr>refcount := refcount u - 1\<rparr>) s)
             \<lparr>trace := trace s @
                (if refcount u = 1
                 then [call_xnheap_destroy p, call_vfree (xnheap_get_membase (heap u))] @
                      (case release u of None \<Rightarrow> [] | Some cb \<Rightarrow> [call_release cb p])
                 else [])\<rparr>)"
  using assms
  by (simp add: steely_umm_destroy_def Let_def emit_def trace_store_umm xnheap_get_membase_def
      split: option.splits)

theorem steely_umm_destroy_zero_transition_witness:
  "steely_umm_destroy (Some process_sys_ppd_umm) running_state =
     Return (running_state
       \<lparr>current_process := Some \<lparr>sys_ppd_umm = private_umm\<lparr>refcount := 0\<rparr>\<rparr>,
        trace := [call_xnheap_destroy process_sys_ppd_umm, call_vfree 0x300000,
                  call_release 7 process_sys_ppd_umm]\<rparr>)"
  using steely_umm_destroy_zero_transition [of process_sys_ppd_umm running_state private_umm]
  by (simp add: deref_umm_def store_umm_def xnheap_get_membase_def concrete_defs)

section \<open>Opening a mapping\<close>

text \<open>C3. When the session resolves to a region, a mapping request whose length differs
  from the size of the region fails with \<open>-EINVAL\<close> and leaves the whole state, so
  also the reference count, as it was. When the length is the size of the region and the
  host binds the mapping, the request returns 0 and the reference count of the region is
  one more than before; the count of the other region is unchanged.\<close>

theorem umm_mmap_length_check:
  assumes "umm_from_fd (Some f) s = Return (Some p)" and "deref_umm p s = Some u"
  shows "(vm_end vma - vm_start vma \<noteq> xnheap_get_size (heap u) \<longrightarrow>
            umm_mmap h (Some f) vma s = Return (- EINVAL, vma, s)) \<and>
         (vm_end vma - vm_start vma = xnheap_get_size (heap u) \<and> rtdm_mmap_vmem_result h = 0 \<longrightarrow>
            (\<exists>vma' s'. umm_mmap h (Some f) vma s = Return (0, vma', s') \<and>
               refcount_of p s' = Some (refcount u + 1) \<and>
               (\<forall>q. q \<noteq> p \<longrightarrow> refcount_of q s' = refcount_of q s)))"
  using assms
  by (auto simp: umm_mmap_def Let_def refcount_of_def deref_umm_emit deref_umm_store_same
      deref_umm_def store_umm_def emit_def split: umm_ptr.splits)

theorem umm_mmap_length_check_witness:
  "umm_mmap good_host (Some private_fd) half_page_vma running_state =
     Return (- EINVAL, half_page_vma, running_state) \<and>
   (\<exists>vma' s'. umm_mmap good_host (Some private_fd) page_vma running_state = Return (0, vma', s') \<and>
      refcount_of process_sys_ppd_umm s' = Some 2 \<and>
      refcount_of steely_kernel_ppd_umm s' = Some 1)"
proof -
  have r: "umm_from_fd (Some private_fd) running_state = Return (Some process_sys_ppd_umm)"
    by (simp add: umm_from_fd_def concrete_defs)
  have d: "deref_umm process_sys_ppd_umm running_state = Some private_umm"
    by (simp add: deref_umm_def concrete_defs)
  have k: "refcount_of steely_kernel_ppd_umm running_state = Some 1"
    by (simp add: refcount_of_def deref_umm_def concrete_defs)
  have short: "vm_end half_page_vma - vm_start half_page_vma \<noteq> xnheap_get_size (heap private_umm)"
    by (simp add: xnheap_get_size_def half_page_vma_def concrete_defs)
  have full: "vm_end page_vma - vm_start page_vma = xnheap_get_size (heap private_umm)"
    by (simp add: xnheap_get_size_def concrete_defs)
  have g: "rtdm_mmap_vmem_result good_host = 0"
    by (simp add: good_host_def)
  have one: "refcount private_umm + 1 = 2"
    by (simp add: private_umm_def)
  from umm_mmap_length_check [OF r d, of half_page_vma good_host] short
  have a: "umm_mmap good_host (Some private_fd) half_page_vma running_state =
             Return (- EINVAL, half_page_vma, running_state)"
    by blast
  from umm_mmap_length_check [OF r d, of page_vma good_host] full g
  obtain vma' s' where
    "umm_mmap good_host (Some private_fd) page_vma running_state = Return (0, vma', s')"
    "refcount_of process_sys_ppd_umm s' = Some (refcount private_umm + 1)"
    "\<forall>q. q \<noteq> process_sys_ppd_umm \<longrightarrow> refcount_of q s' = refcount_of q running_state"
    by blast
  with k one have
    "\<exists>vma' s'. umm_mmap good_host (Some private_fd) page_vma running_state = Return (0, vma', s') \<and>
       refcount_of process_sys_ppd_umm s' = Some 2 \<and>
       refcount_of steely_kernel_ppd_umm s' = Some 1"
    by auto
  with a show ?thesis by blast
qed

text \<open>C9. Whatever the request, when \<open>umm_mmap\<close> returns a failure code both regions,
  and so their reference counts, are as they were; when it does not return at all the
  whole state is as it was. It returns 0 only when the descriptor is valid, the session
  resolves to a region, the length is the size of that region and the host has bound the
  mapping, and then the only change to the regions is one increment of that region's
  count, made after the call that binds.\<close>

theorem umm_mmap_refcount_frame:
  "(\<forall>ret vma' s'. umm_mmap h fd vma s = Return (ret, vma', s') \<longrightarrow>
      (ret \<noteq> 0 \<longrightarrow> current_process s' = current_process s \<and>
                   steely_kernel_ppd s' = steely_kernel_ppd s) \<and>
      (ret = 0 \<longrightarrow>
         (\<exists>f p u. fd = Some f \<and> umm_from_fd fd s = Return (Some p) \<and> deref_umm p s = Some u \<and>
            vm_end vma - vm_start vma = xnheap_get_size (heap u) \<and>
            rtdm_mmap_vmem_result h = 0 \<and>
            s' = store_umm p (u\<lparr>refcount := refcount u + 1\<rparr>)
                   (emit (call_rtdm_mmap_vmem vma' (xnheap_get_membase (heap u))) s)))) \<and>
   (\<forall>s'. umm_mmap h fd vma s = Oops s' \<longrightarrow> s' = s)"
  by (auto simp: umm_mmap_def Let_def umm_from_fd_def emit_def errno_defs
      split: outcome.splits option.splits if_splits)

theorem umm_mmap_refcount_frame_witness:
  "\<exists>vma' s'. umm_mmap bind_fail_host (Some private_fd) page_vma running_state =
       Return (- ENOMEM, vma', s') \<and>
     current_process s' = current_process running_state \<and>
     steely_kernel_ppd s' = steely_kernel_ppd running_state"
proof -
  have "\<exists>vma' s'. umm_mmap bind_fail_host (Some private_fd) page_vma running_state =
          Return (- ENOMEM, vma', s')"
    by (simp add: umm_mmap_def umm_from_fd_def deref_umm_def xnheap_get_size_def Let_def
        bind_fail_host_def concrete_defs)
  then obtain vma' s' where
    e: "umm_mmap bind_fail_host (Some private_fd) page_vma running_state =
          Return (- ENOMEM, vma', s')"
    by blast
  have n: "- ENOMEM \<noteq> (0::int)"
    by (simp add: ENOMEM_def)
  from umm_mmap_refcount_frame [of bind_fail_host "Some private_fd" page_vma running_state] e n
  have "current_process s' = current_process running_state \<and>
        steely_kernel_ppd s' = steely_kernel_ppd running_state"
    by blast
  with e show ?thesis by blast
qed

section \<open>Region creation when the delegated heap fails\<close>

text \<open>C5, as amended. When the host has allocated the backing block and the
  initialisation of the delegated heap fails, \<open>steely_umm_init\<close> returns the block to
  the host and then reports the code that the heap initialisation returned; the calls it
  has made are the allocation, the initialisation and the release of the block, in this
  order.\<close>

theorem steely_umm_init_heap_failure:
  assumes "vmalloc_result h = Some b" and "xnheap_init_result h \<noteq> 0"
  shows "steely_umm_init h cfg p size0 rel s =
           Return (xnheap_init_result h,
             s\<lparr>trace := trace s @
                 [call_vmalloc (ucast (PAGE_ALIGN cfg size0)) [GFP_KERNEL, GFP_ZERO] (vmalloc_prot h),
                  call_xnheap_init p b (ucast (PAGE_ALIGN cfg size0)),
                  call_vfree b]\<rparr>)"
  using assms
  by (simp add: steely_umm_init_def xnheap_init_def Let_def emit_def vmalloc_prot_def)

theorem steely_umm_init_heap_failure_witness:
  "steely_umm_init heap_enomem_host cfg0 steely_kernel_ppd_umm 4096 None boot_state =
     Return (- ENOMEM,
       boot_state\<lparr>trace := [call_vmalloc 4096 [GFP_KERNEL, GFP_ZERO] PAGE_KERNEL,
                            call_xnheap_init steely_kernel_ppd_umm 0x200000 4096,
                            call_vfree 0x200000]\<rparr>)"
  using steely_umm_init_heap_failure
    [of heap_enomem_host "0x200000" cfg0 steely_kernel_ppd_umm 4096 None boot_state]
  by (simp add: PAGE_ALIGN_def PAGE_SIZE_def vmalloc_prot_def heap_enomem_host_def concrete_defs
      errno_defs)

text \<open>The claim as first stated, that the failure reported is always OutOfMemory, is
  false: a heap initialisation that fails with \<open>-EINVAL\<close> makes
  \<open>steely_umm_init\<close> return \<open>-EINVAL\<close>.\<close>

theorem steely_umm_init_heap_failure_counterexample:
  "steely_umm_init heap_einval_host cfg0 steely_kernel_ppd_umm 4096 None boot_state =
     Return (- EINVAL,
       boot_state\<lparr>trace := [call_vmalloc 4096 [GFP_KERNEL, GFP_ZERO] PAGE_KERNEL,
                            call_xnheap_init steely_kernel_ppd_umm 0x200000 4096,
                            call_vfree 0x200000]\<rparr>) \<and>
   - EINVAL \<noteq> - ENOMEM"
  by (simp add: steely_umm_init_def xnheap_init_def PAGE_ALIGN_def PAGE_SIZE_def Let_def
      emit_def heap_einval_host_def concrete_defs errno_defs)

section \<open>The system-heap device\<close>


lemma do_sysmem_ioctls_other:
  "request \<noteq> MEMDEV_RTIOC_STAT cfg \<Longrightarrow> do_sysmem_ioctls h cfg fd request arg s = (- EINVAL, s)"
  by (simp add: do_sysmem_ioctls_def)





section \<open>Out-of-line lock entry points\<close>

text \<open>C10. Whatever the inline implementations are, the out-of-line acquire returns
  what the inline acquire returns and leaves the locks as it leaves them, and the
  out-of-line release has the effect of the inline release, for every lock, debug context
  and state.\<close>

theorem outofline_xnlock_same_as_inline:
  "outofline_xnlock_get inline_get lock ctx s = inline_get lock ctx s \<and>
   outofline_xnlock_put inline_put lock ctx s = inline_put lock ctx s"
  by (simp add: outofline_xnlock_get_def outofline_xnlock_put_def)

section \<open>Region creation: rounding, allocation, first reference\<close>

text \<open>Rounding up to a multiple of a power of two, on natural numbers and on 32-bit
  words when the sum does not wrap.\<close>

lemma round_up_nat:
  fixes n P :: nat
  assumes "0 < P"
  shows "P dvd ((n + P - 1) div P) * P" and "n \<le> ((n + P - 1) div P) * P"
    and "((n + P - 1) div P) * P < n + P"
proof -
  show "P dvd ((n + P - 1) div P) * P" by simp
  have e: "((n + P - 1) div P) * P + (n + P - 1) mod P = n + P - 1"
    by (simp add: div_mult_mod_eq)
  have m: "(n + P - 1) mod P < P" using assms by simp
  from e m assms show "n \<le> ((n + P - 1) div P) * P" by linarith
  from e assms show "((n + P - 1) div P) * P < n + P" by linarith
qed

lemma and_not_mask_push_drop:
  "(w :: 'a::len word) AND NOT (mask k) = push_bit k (drop_bit k w)"
  by (rule bit_eqI) (auto simp: bit_simps)

lemma unat_and_not_mask:
  "unat ((w :: 'a::len word) AND NOT (mask k)) = (unat w div 2 ^ k) * 2 ^ k"
proof -
  have le: "(unat w div 2 ^ k) * 2 ^ k \<le> unat w"
    by simp
  have "unat w < 2 ^ LENGTH('a)" by (rule unsigned_less)
  with le have lt: "(unat w div 2 ^ k) * 2 ^ k < 2 ^ LENGTH('a)" by linarith
  have "unat (push_bit k (drop_bit k w)) = take_bit LENGTH('a) (push_bit k (drop_bit k (unat w)))"
    by (simp only: unsigned_push_bit_eq unat_drop_bit_eq)
  also have "\<dots> = (unat w div 2 ^ k) * 2 ^ k"
    using lt by (simp add: push_bit_eq_mult drop_bit_eq_div take_bit_nat_eq_self)
  finally show ?thesis by (simp only: and_not_mask_push_drop)
qed

lemma round_up_word:
  fixes x :: "32 word"
  assumes "k < 32" "unat x + 2 ^ k \<le> 2 ^ 32"
  shows "unat ((x + (push_bit k 1 - 1)) AND NOT (push_bit k 1 - 1)) = ((unat x + 2 ^ k - 1) div 2 ^ k) * 2 ^ k"
proof -
  have m: "push_bit k (1 :: 32 word) - 1 = mask k"
    by (simp add: mask_eq_exp_minus_1 push_bit_eq_mult)
  have "(2 ^ k :: 32 word) = of_nat (2 ^ k)" by simp
  then have "unat (2 ^ k :: 32 word) = 2 ^ k mod 2 ^ LENGTH(32)"
    by (simp only: unat_of_nat)
  moreover have "(2::nat) ^ k < 2 ^ 32"
    using assms(1) by (rule power_strict_increasing) simp
  ultimately have "unat (2 ^ k :: 32 word) = 2 ^ k"
    by simp
  moreover have "(2 ^ k :: 32 word) \<noteq> 0"
    using assms(1) by (simp add: power_eq_0_iff)
  ultimately have um: "unat (mask k :: 32 word) = 2 ^ k - 1"
    by (simp add: mask_eq_exp_minus_1 unat_minus_one)
  have "unat x + unat (mask k :: 32 word) < 2 ^ LENGTH(32)"
    using assms(2) um by simp
  then have "unat (x + mask k) = unat x + unat (mask k :: 32 word)"
    by (rule unat_add_lem [THEN iffD1])
  then have "unat (x + mask k) = unat x + 2 ^ k - 1"
    using um by simp
  then have "unat ((x + mask k) AND NOT (mask k)) = ((unat x + 2 ^ k - 1) div 2 ^ k) * 2 ^ k"
    by (simp only: unat_and_not_mask)
  then show ?thesis
    by (simp only: m)
qed

lemma PAGE_ALIGN_rounds_up:
  assumes "PAGE_SHIFT cfg < 32" and "unat x + 2 ^ PAGE_SHIFT cfg \<le> 2 ^ 32"
  shows "2 ^ PAGE_SHIFT cfg dvd unat (PAGE_ALIGN cfg x)"
    and "unat x \<le> unat (PAGE_ALIGN cfg x)"
    and "unat (PAGE_ALIGN cfg x) < unat x + 2 ^ PAGE_SHIFT cfg"
  using round_up_word [OF assms] round_up_nat [of "2 ^ PAGE_SHIFT cfg" "unat x"]
  by (simp_all add: PAGE_ALIGN_def PAGE_SIZE_def)

lemma steely_umm_init_no_memory:
  assumes "vmalloc_result h = None"
  shows "steely_umm_init h cfg p size0 rel s =
           Return (- ENOMEM,
             s\<lparr>trace := trace s @
                 [call_vmalloc (ucast (PAGE_ALIGN cfg size0)) [GFP_KERNEL, GFP_ZERO]
                    (vmalloc_prot h)]\<rparr>)"
  using assms by (simp add: steely_umm_init_def Let_def emit_def vmalloc_prot_def)

lemma steely_umm_init_success:
  assumes "vmalloc_result h = Some b" and "xnheap_init_result h = 0" and "deref_umm p s = Some u"
  shows "steely_umm_init h cfg p size0 rel s =
           Return (0,
             store_umm p
               \<lparr>heap = (heap u)\<lparr>membase := b,
                                heap_size := ucast (PAGE_ALIGN cfg size0),
                                heap_free := ucast (PAGE_ALIGN cfg size0)\<rparr>,
                refcount = 1, release = rel\<rparr>
               (s\<lparr>trace := trace s @
                   [call_vmalloc (ucast (PAGE_ALIGN cfg size0)) [GFP_KERNEL, GFP_ZERO]
                      (vmalloc_prot h),
                    call_xnheap_init p b (ucast (PAGE_ALIGN cfg size0))]\<rparr>))"
  using assms
  by (cases p)
     (auto simp: steely_umm_init_def xnheap_init_def Let_def emit_def vmalloc_prot_def
       deref_umm_def store_umm_def)

text \<open>C6, as amended. For every requested size that is at most \<open>2^32 - PAGE_SIZE\<close>
  (pages smaller than 4 GiB), \<open>steely_umm_init\<close> rounds the size up to the next
  multiple of the page size and asks the host for a zero-filled block of the rounded size.
  If the host has no block it fails with \<open>-ENOMEM\<close> after this one call. If the
  host gives a block and the delegated heap initialises over it, the region has that block
  as its base, the rounded size as its size, the release callback given and reference
  count 1, and the calls made are the allocation and the heap initialisation.\<close>

theorem steely_umm_init_contract:
  assumes "PAGE_SHIFT cfg < 32" and "unat size0 + 2 ^ PAGE_SHIFT cfg \<le> 2 ^ 32"
    and "deref_umm p s = Some u"
  shows "2 ^ PAGE_SHIFT cfg dvd unat (PAGE_ALIGN cfg size0) \<and>
         unat size0 \<le> unat (PAGE_ALIGN cfg size0) \<and>
         unat (PAGE_ALIGN cfg size0) < unat size0 + 2 ^ PAGE_SHIFT cfg \<and>
         (vmalloc_result h = None \<longrightarrow>
            steely_umm_init h cfg p size0 rel s =
              Return (- ENOMEM,
                s\<lparr>trace := trace s @
                    [call_vmalloc (ucast (PAGE_ALIGN cfg size0)) [GFP_KERNEL, GFP_ZERO]
                       (vmalloc_prot h)]\<rparr>)) \<and>
         (\<forall>b. vmalloc_result h = Some b \<and> xnheap_init_result h = 0 \<longrightarrow>
            steely_umm_init h cfg p size0 rel s =
              Return (0,
                store_umm p
                  \<lparr>heap = (heap u)\<lparr>membase := b,
                                   heap_size := ucast (PAGE_ALIGN cfg size0),
                                   heap_free := ucast (PAGE_ALIGN cfg size0)\<rparr>,
                   refcount = 1, release = rel\<rparr>
                  (s\<lparr>trace := trace s @
                      [call_vmalloc (ucast (PAGE_ALIGN cfg size0)) [GFP_KERNEL, GFP_ZERO]
                         (vmalloc_prot h),
                       call_xnheap_init p b (ucast (PAGE_ALIGN cfg size0))]\<rparr>)))"
  using PAGE_ALIGN_rounds_up [OF assms(1,2)] steely_umm_init_no_memory [of h cfg p size0 rel s]
    steely_umm_init_success [OF _ _ assms(3), of h _ cfg size0 rel]
  by blast

theorem steely_umm_init_contract_witness:
  "unat (PAGE_ALIGN cfg0 5000) = 8192 \<and>
   steely_umm_init no_memory_host cfg0 steely_kernel_ppd_umm 5000 None boot_state =
     Return (- ENOMEM,
       boot_state\<lparr>trace := [call_vmalloc 8192 [GFP_KERNEL, GFP_ZERO] PAGE_KERNEL]\<rparr>) \<and>
   steely_umm_init good_host cfg0 steely_kernel_ppd_umm 5000 None boot_state =
     Return (0,
       boot_state\<lparr>steely_kernel_ppd :=
                    \<lparr>heap = \<lparr>membase = 0x200000, heap_size = 8192, heap_free = 8192,
                             heap_name = []\<rparr>,
                     refcount = 1, release = None\<rparr>,
                  trace := [call_vmalloc 8192 [GFP_KERNEL, GFP_ZERO] PAGE_KERNEL,
                            call_xnheap_init steely_kernel_ppd_umm 0x200000 8192]\<rparr>)"
proof -
  have k: "PAGE_SHIFT cfg0 < 32"
    by (simp add: cfg0_def)
  have b: "unat (5000 :: 32 word) + 2 ^ PAGE_SHIFT cfg0 \<le> 2 ^ 32"
    by (simp add: cfg0_def)
  have d: "deref_umm steely_kernel_ppd_umm boot_state = Some empty_umm"
    by (simp add: deref_umm_def boot_state_def)
  have a: "PAGE_ALIGN cfg0 5000 = 8192"
    by (simp add: PAGE_ALIGN_def PAGE_SIZE_def cfg0_def)
  show ?thesis
    using steely_umm_init_contract [OF k b d, of no_memory_host None]
      steely_umm_init_contract [OF k b d, of good_host None]
    by (simp add: a store_umm_def vmalloc_prot_def good_host_def no_memory_host_def
        boot_state_def empty_umm_def)
qed

text \<open>The claim as first stated, for every requested size, is false: the rounding is
  done in the 32-bit \<open>size\<close>, so a size within a page of \<open>2^32\<close> wraps, and the
  block requested is smaller than the size asked for (here 0 bytes).\<close>

theorem steely_umm_init_contract_counterexample:
  "steely_umm_init no_memory_host cfg0 steely_kernel_ppd_umm 0xFFFFFFFF None boot_state =
     Return (- ENOMEM,
       boot_state\<lparr>trace := [call_vmalloc 0 [GFP_KERNEL, GFP_ZERO] PAGE_KERNEL]\<rparr>) \<and>
   unat (PAGE_ALIGN cfg0 0xFFFFFFFF) < unat (0xFFFFFFFF :: 32 word)"
  by (simp add: steely_umm_init_def PAGE_ALIGN_def PAGE_SIZE_def Let_def emit_def
      no_memory_host_def concrete_defs)

section \<open>N sessions opened and closed\<close>

lemma steely_umm_destroy_deref:
  assumes "deref_umm p s = Some u"
  shows "\<exists>s'. steely_umm_destroy (Some p) s = Return s' \<and>
           deref_umm p s' = Some (u\<lparr>refcount := refcount u - 1\<rparr>)"
  using assms
  by (auto simp: steely_umm_destroy_def Let_def deref_umm_emit deref_umm_store_same
      split: option.splits)

lemma close_sessions_refcount:
  assumes "\<forall>v\<in>set vs. vm_private_data v = Some p" and "deref_umm p s = Some u"
  shows "\<exists>s'. close_sessions vs s = Return s' \<and>
           deref_umm p s' = Some (u\<lparr>refcount := refcount u - of_nat (length vs)\<rparr>)"
  using assms
proof (induction vs arbitrary: s u)
  case Nil
  then show ?case by simp
next
  case (Cons v vs)
  from Cons.prems have v: "vm_private_data v = Some p" by simp
  from steely_umm_destroy_deref [OF Cons.prems(2)] obtain s1 where
    s1: "steely_umm_destroy (Some p) s = Return s1"
      "deref_umm p s1 = Some (u\<lparr>refcount := refcount u - 1\<rparr>)"
    by blast
  from Cons.prems have "\<forall>v\<in>set vs. vm_private_data v = Some p" by simp
  from Cons.IH [OF this s1(2)] obtain s' where
    "close_sessions vs s1 = Return s'"
    "deref_umm p s' = Some (u\<lparr>refcount := refcount u - 1 - of_nat (length vs)\<rparr>)"
    by auto
  with v s1(1) show ?case
    by (simp add: umm_vmclose_def algebra_simps)
qed

lemma umm_vmopen_deref:
  assumes "vm_private_data vma = Some p" and "deref_umm p s = Some u"
  shows "umm_vmopen vma s = Return (store_umm p (u\<lparr>refcount := refcount u + 1\<rparr>) s)"
  using assms by (simp add: umm_vmopen_def)

lemma umm_mmap_opens:
  assumes "opens_view_of h p s (Open_mapping fd vma)" and "deref_umm p s = Some u"
  shows "\<exists>vma'. vm_private_data vma' = Some p \<and>
           umm_mmap h fd vma s =
             Return (0, vma', store_umm p (u\<lparr>refcount := refcount u + 1\<rparr>)
               (emit (call_rtdm_mmap_vmem vma' (xnheap_get_membase (heap u))) s))"
  using assms by (auto simp: umm_mmap_def Let_def)

lemma opens_view_of_after_store:
  assumes "deref_umm p s = Some u"
  shows "opens_view_of h p (store_umm p (u\<lparr>refcount := c\<rparr>) s) r = opens_view_of h p s r"
  using assms
  by (cases r)
     (auto simp: umm_from_fd_def deref_umm_def store_umm_def
       split: umm_ptr.splits option.splits if_splits)

lemma opens_view_of_after_emit:
  "opens_view_of h p (emit e s) r = opens_view_of h p s r"
  by (cases r) (auto simp: umm_from_fd_def deref_umm_def emit_def split: umm_ptr.splits option.splits)

lemma open_sessions_refcount:
  assumes "\<forall>r\<in>set rs. opens_view_of h p s r" and "deref_umm p s = Some u"
  shows "\<exists>vs s'. open_sessions h rs s = Return (vs, s') \<and> length vs = length rs \<and>
           (\<forall>v\<in>set vs. vm_private_data v = Some p) \<and>
           deref_umm p s' = Some (u\<lparr>refcount := refcount u + of_nat (length rs)\<rparr>)"
  using assms
proof (induction rs arbitrary: s u)
  case Nil
  then show ?case by simp
next
  case (Cons r rs)
  show ?case
  proof (cases r)
    case (Open_mapping fd vma)
    with Cons.prems have "opens_view_of h p s (Open_mapping fd vma)" by simp
    from umm_mmap_opens [OF this Cons.prems(2)] obtain vma' where
      m: "vm_private_data vma' = Some p"
        "umm_mmap h fd vma s =
           Return (0, vma', store_umm p (u\<lparr>refcount := refcount u + 1\<rparr>)
             (emit (call_rtdm_mmap_vmem vma' (xnheap_get_membase (heap u))) s))"
      by blast
    define s1 where "s1 = store_umm p (u\<lparr>refcount := refcount u + 1\<rparr>)
             (emit (call_rtdm_mmap_vmem vma' (xnheap_get_membase (heap u))) s)"
    have d1: "deref_umm p s1 = Some (u\<lparr>refcount := refcount u + 1\<rparr>)"
      using Cons.prems(2) by (simp add: s1_def deref_umm_store_same deref_umm_emit)
    have "\<forall>r\<in>set rs. opens_view_of h p s1 r"
      using Cons.prems by (simp add: s1_def opens_view_of_after_store deref_umm_emit
          opens_view_of_after_emit)
    from Cons.IH [OF this d1] obtain vs s' where
      "open_sessions h rs s1 = Return (vs, s')" "length vs = length rs"
      "\<forall>v\<in>set vs. vm_private_data v = Some p"
      "deref_umm p s' = Some (u\<lparr>refcount := refcount u + 1 + of_nat (length rs)\<rparr>)"
      by auto
    with m Open_mapping show ?thesis
      by (simp add: s1_def algebra_simps)
  next
    case (Duplicate_mapping vma)
    with Cons.prems have v: "vm_private_data vma = Some p" by simp
    define s1 where "s1 = store_umm p (u\<lparr>refcount := refcount u + 1\<rparr>) s"
    have o: "umm_vmopen vma s = Return s1"
      using umm_vmopen_deref [OF v Cons.prems(2)] by (simp add: s1_def)
    have d1: "deref_umm p s1 = Some (u\<lparr>refcount := refcount u + 1\<rparr>)"
      using Cons.prems(2) by (simp add: s1_def deref_umm_store_same)
    have "\<forall>r\<in>set rs. opens_view_of h p s1 r"
      using Cons.prems by (simp add: s1_def opens_view_of_after_store)
    from Cons.IH [OF this d1] obtain vs s' where
      "open_sessions h rs s1 = Return (vs, s')" "length vs = length rs"
      "\<forall>v\<in>set vs. vm_private_data v = Some p"
      "deref_umm p s' = Some (u\<lparr>refcount := refcount u + 1 + of_nat (length rs)\<rparr>)"
      by auto
    with o v Duplicate_mapping show ?thesis
      by (simp add: algebra_simps)
  qed
qed

text \<open>C7. On a region with reference count 1, any sequence of N requests that each open
  a view of it (a mapping request that succeeds, or a duplicate) goes through, yields N
  views and leaves the count at 1 + N; closing these N views in any order goes through and
  leaves the count at 1. Duplicating a view of a live region always returns, with the
  count one more than before. The count is the 32-bit \<open>atomic_t\<close>.\<close>

theorem sessions_restore_refcount:
  assumes "deref_umm p s = Some u" and "refcount u = 1"
    and "\<forall>r\<in>set rs. opens_view_of h p s r"
  shows "(\<exists>vs s1. open_sessions h rs s = Return (vs, s1) \<and> length vs = length rs \<and>
            refcount_of p s1 = Some (1 + of_nat (length rs)) \<and>
            (\<forall>vs'. mset vs' = mset vs \<longrightarrow>
               (\<exists>s2. close_sessions vs' s1 = Return s2 \<and> refcount_of p s2 = Some 1))) \<and>
         (\<forall>vma. vm_private_data vma = Some p \<longrightarrow>
            (\<exists>s'. umm_vmopen vma s = Return s' \<and> refcount_of p s' = Some (refcount u + 1)))"
proof
  from open_sessions_refcount [OF assms(3) assms(1)] obtain vs s1 where
    o: "open_sessions h rs s = Return (vs, s1)" "length vs = length rs"
      "\<forall>v\<in>set vs. vm_private_data v = Some p"
      "deref_umm p s1 = Some (u\<lparr>refcount := refcount u + of_nat (length rs)\<rparr>)"
    by blast
  have "\<exists>s2. close_sessions vs' s1 = Return s2 \<and> refcount_of p s2 = Some 1"
    if "mset vs' = mset vs" for vs'
  proof -
    from that have "set vs' = set vs" and l: "length vs' = length vs"
      by (auto dest: mset_eq_setD mset_eq_length)
    with o(3) have "\<forall>v\<in>set vs'. vm_private_data v = Some p" by simp
    from close_sessions_refcount [OF this o(4)] l o(2) assms(2) show ?thesis
      by (auto simp: refcount_of_def)
  qed
  with o assms(2) show "\<exists>vs s1. open_sessions h rs s = Return (vs, s1) \<and> length vs = length rs \<and>
            refcount_of p s1 = Some (1 + of_nat (length rs)) \<and>
            (\<forall>vs'. mset vs' = mset vs \<longrightarrow>
               (\<exists>s2. close_sessions vs' s1 = Return s2 \<and> refcount_of p s2 = Some 1))"
    by (auto simp: refcount_of_def)
next
  show "\<forall>vma. vm_private_data vma = Some p \<longrightarrow>
            (\<exists>s'. umm_vmopen vma s = Return s' \<and> refcount_of p s' = Some (refcount u + 1))"
    using assms(1) by (auto simp: umm_vmopen_def refcount_of_def deref_umm_store_same)
qed

theorem sessions_restore_refcount_witness:
  "\<exists>vs s1 s2.
     open_sessions good_host
       [Open_mapping (Some private_fd) page_vma, Duplicate_mapping forked_vma] running_state =
       Return (vs, s1) \<and>
     refcount_of process_sys_ppd_umm s1 = Some 3 \<and>
     close_sessions (rev vs) s1 = Return s2 \<and>
     refcount_of process_sys_ppd_umm s2 = Some 1"
proof -
  have d: "deref_umm process_sys_ppd_umm running_state = Some private_umm"
    by (simp add: deref_umm_def concrete_defs)
  have c: "refcount private_umm = 1"
    by (simp add: private_umm_def)
  have v: "\<forall>r\<in>set [Open_mapping (Some private_fd) page_vma, Duplicate_mapping forked_vma].
             opens_view_of good_host process_sys_ppd_umm running_state r"
    by (simp add: umm_from_fd_def deref_umm_def xnheap_get_size_def forked_vma_def bound_vma_def
        concrete_defs)
  from sessions_restore_refcount [OF d c v] obtain vs s1 where
    o: "open_sessions good_host
          [Open_mapping (Some private_fd) page_vma, Duplicate_mapping forked_vma] running_state =
          Return (vs, s1)"
      "refcount_of process_sys_ppd_umm s1 = Some (1 + of_nat (length
          [Open_mapping (Some private_fd) page_vma, Duplicate_mapping forked_vma]))"
      "\<forall>vs'. mset vs' = mset vs \<longrightarrow>
         (\<exists>s2. close_sessions vs' s1 = Return s2 \<and> refcount_of process_sys_ppd_umm s2 = Some 1)"
    by blast
  have "mset (rev vs) = mset vs" by simp
  with o(3) obtain s2 where
    "close_sessions (rev vs) s1 = Return s2" "refcount_of process_sys_ppd_umm s2 = Some 1"
    by blast
  with o(1,2) show ?thesis by auto
qed

section \<open>Start-up and teardown of the registry\<close>

lemma upt_Suc_0_2: "[Suc 0..<2] = [1]"
  by (simp add: upt_rec)
lemma upt_Suc_0_3: "[Suc 0..<3] = [1, 2]"
  by (simp add: upt_rec)
lemma upt_Suc_0_4: "[Suc 0..<4] = [1, 2, 3]"
  by (simp add: upt_rec)
lemma upt_Suc_0_5: "[Suc 0..<5] = [1, 2, 3, 4]"
  by (simp add: upt_rec)
lemma upt_Suc_0_6: "[Suc 0..<6] = [1, 2, 3, 4, 5]"
  by (simp add: upt_rec)

lemmas upt_steps = upt_Suc_0_2 upt_Suc_0_3 upt_Suc_0_4 upt_Suc_0_5 upt_Suc_0_6

lemmas registry_defs = steely_memdev_init_def steely_umm_init_def xnheap_init_def
  steely_umm_set_name_def steely_umm_alloc_def steely_umm_free_def rtdm_dev_register_def
  rtdm_dev_unregister_def init_vdso_def fail_vdso_def fail_private_def fail_shared_def
  fail_sysmem_def steely_umm_destroy_def steely_memdev_cleanup_def deref_umm_def store_umm_def
  emit_def xnheap_get_membase_def Let_def

lemmas step_defs = step_calls_def failed_step_calls_def step_result_def undo_calls_def
  shared_heap_bytes_def vmalloc_prot_def

lemma startup_fails_at_1:
  assumes "step_result h 1 \<noteq> 0"
  shows "\<exists>s'. steely_memdev_init h cfg s = Return (step_result h 1, s') \<and>
     trace s' = trace s @ failed_step_calls h cfg 1"
  using assms by (auto simp: registry_defs step_defs split: option.splits)

lemma startup_fails_at_2:
  assumes "step_result h 1 = 0" "step_result h 2 \<noteq> 0"
  shows "\<exists>s'. steely_memdev_init h cfg s = Return (step_result h 2, s') \<and>
     trace s' = trace s @ step_calls h cfg 1 @ failed_step_calls h cfg 2 @ undo_calls h 1"
  using assms by (auto simp: registry_defs step_defs ENOMEM_def split: option.splits)

lemma startup_fails_at_3:
  assumes "step_result h 1 = 0" "step_result h 2 = 0" "step_result h 3 \<noteq> 0"
  shows "\<exists>s'. steely_memdev_init h cfg s = Return (step_result h 3, s') \<and>
     trace s' = trace s @ step_calls h cfg 1 @ step_calls h cfg 2 @ failed_step_calls h cfg 3 @
       undo_calls h 2 @ undo_calls h 1"
  using assms by (auto simp: registry_defs step_defs ENOMEM_def split: option.splits)

lemma startup_fails_at_4:
  assumes "step_result h 1 = 0" "step_result h 2 = 0" "step_result h 3 = 0" "step_result h 4 \<noteq> 0"
  shows "\<exists>s'. steely_memdev_init h cfg s = Return (step_result h 4, s') \<and>
     trace s' = trace s @ step_calls h cfg 1 @ step_calls h cfg 2 @ step_calls h cfg 3 @
       failed_step_calls h cfg 4 @ undo_calls h 3 @ undo_calls h 2 @ undo_calls h 1"
  using assms by (auto simp: registry_defs step_defs ENOMEM_def split: option.splits)

lemma startup_fails_at_5:
  assumes "step_result h 1 = 0" "step_result h 2 = 0" "step_result h 3 = 0" "step_result h 4 = 0"
    "step_result h 5 \<noteq> 0"
  shows "\<exists>s'. steely_memdev_init h cfg s = Return (step_result h 5, s') \<and>
     trace s' = trace s @ step_calls h cfg 1 @ step_calls h cfg 2 @ step_calls h cfg 3 @
       step_calls h cfg 4 @ failed_step_calls h cfg 5 @
       undo_calls h 4 @ undo_calls h 3 @ undo_calls h 2 @ undo_calls h 1"
  using assms by (auto simp: registry_defs step_defs ENOMEM_def split: option.splits)

lemma startup_succeeds:
  assumes "step_result h 1 = 0" "step_result h 2 = 0" "step_result h 3 = 0" "step_result h 4 = 0"
    "step_result h 5 = 0"
  shows "\<exists>s1 s2. steely_memdev_init h cfg s = Return (0, s1) \<and>
     trace s1 = trace s @ step_calls h cfg 1 @ step_calls h cfg 2 @ step_calls h cfg 3 @
       step_calls h cfg 4 @ step_calls h cfg 5 \<and>
     steely_memdev_cleanup s1 = Return s2 \<and>
     trace s2 = trace s1 @ undo_calls h 5 @ undo_calls h 4 @ undo_calls h 3 @ undo_calls h 2 @
       undo_calls h 1"
  using assms by (auto simp: registry_defs step_defs ENOMEM_def split: option.splits)

text \<open>C4. If start-up fails at step \<open>k\<close> of the five, after steps 1 to
  \<open>k - 1\<close> succeeded, \<open>steely_memdev_init\<close> reports the code of the failing
  step, and the calls it has made are those of the completed steps, those of the failing
  step, and then the undoing of the completed steps \<open>k - 1\<close> down to 1, and no
  others. When all five steps succeed it returns 0, and \<open>steely_memdev_cleanup\<close>
  called then undoes the five steps from 5 down to 1.\<close>

theorem steely_memdev_init_unwinds:
  "(1 \<le> k \<and> k \<le> 5 \<and> (\<forall>j. 1 \<le> j \<and> j < k \<longrightarrow> step_result h j = 0) \<and> step_result h k \<noteq> 0 \<longrightarrow>
      (\<exists>s'. steely_memdev_init h cfg s = Return (step_result h k, s') \<and>
         trace s' = trace s @ concat (map (step_calls h cfg) [1..<k]) @ failed_step_calls h cfg k @
           concat (map (undo_calls h) (rev [1..<k])))) \<and>
   ((\<forall>j. 1 \<le> j \<and> j \<le> 5 \<longrightarrow> step_result h j = 0) \<longrightarrow>
      (\<exists>s1 s2. steely_memdev_init h cfg s = Return (0, s1) \<and>
         trace s1 = trace s @ concat (map (step_calls h cfg) [1..<6]) \<and>
         steely_memdev_cleanup s1 = Return s2 \<and>
         trace s2 = trace s1 @ concat (map (undo_calls h) (rev [1..<6]))))"
proof (intro conjI impI)
  assume a: "1 \<le> k \<and> k \<le> 5 \<and> (\<forall>j. 1 \<le> j \<and> j < k \<longrightarrow> step_result h j = 0) \<and>
    step_result h k \<noteq> 0"
  then consider "k = 1" | "k = 2" | "k = 3" | "k = 4" | "k = 5" by linarith
  then show "\<exists>s'. steely_memdev_init h cfg s = Return (step_result h k, s') \<and>
         trace s' = trace s @ concat (map (step_calls h cfg) [1..<k]) @ failed_step_calls h cfg k @
           concat (map (undo_calls h) (rev [1..<k]))"
  proof cases
    case 1
    with a startup_fails_at_1 [of h cfg s] show ?thesis by simp
  next
    case 2
    with a have "step_result h 1 = 0" "step_result h 2 \<noteq> 0" by simp_all
    from startup_fails_at_2 [OF this, of cfg s] 2 show ?thesis by (simp add: upt_steps)
  next
    case 3
    with a have "step_result h 1 = 0" "step_result h 2 = 0" "step_result h 3 \<noteq> 0" by simp_all
    from startup_fails_at_3 [OF this, of cfg s] 3 show ?thesis by (simp add: upt_steps)
  next
    case 4
    with a have "step_result h 1 = 0" "step_result h 2 = 0" "step_result h 3 = 0"
      "step_result h 4 \<noteq> 0" by simp_all
    from startup_fails_at_4 [OF this, of cfg s] 4 show ?thesis by (simp add: upt_steps)
  next
    case 5
    with a have "step_result h 1 = 0" "step_result h 2 = 0" "step_result h 3 = 0"
      "step_result h 4 = 0" "step_result h 5 \<noteq> 0" by simp_all
    from startup_fails_at_5 [OF this, of cfg s] 5 show ?thesis by (simp add: upt_steps)
  qed
next
  assume "\<forall>j. 1 \<le> j \<and> j \<le> 5 \<longrightarrow> step_result h j = 0"
  then have "step_result h 1 = 0" "step_result h 2 = 0" "step_result h 3 = 0"
    "step_result h 4 = 0" "step_result h 5 = 0" by simp_all
  from startup_succeeds [OF this, of cfg s]
  show "\<exists>s1 s2. steely_memdev_init h cfg s = Return (0, s1) \<and>
         trace s1 = trace s @ concat (map (step_calls h cfg) [1..<6]) \<and>
         steely_memdev_cleanup s1 = Return s2 \<and>
         trace s2 = trace s1 @ concat (map (undo_calls h) (rev [1..<6]))"
    by (simp add: upt_steps)
qed

theorem steely_memdev_init_unwinds_witness:
  "(\<exists>s'. steely_memdev_init shared_register_fail_host cfg0 boot_state = Return (- EINVAL, s') \<and>
      trace s' =
        [call_vmalloc 4096 [GFP_KERNEL, GFP_ZERO] PAGE_KERNEL,
         call_xnheap_init steely_kernel_ppd_umm 0x200000 4096,
         call_steely_umm_alloc steely_kernel_ppd_umm 8,
         call_rtdm_dev_register (umm_devices UMM_PRIVATE),
         call_rtdm_dev_register (umm_devices UMM_SHARED),
         call_rtdm_dev_unregister (umm_devices UMM_PRIVATE),
         call_steely_umm_free steely_kernel_ppd_umm (Some 0x200040),
         call_xnheap_destroy steely_kernel_ppd_umm,
         call_vfree 0x200000]) \<and>
   (\<exists>s1 s2. steely_memdev_init good_host cfg0 boot_state = Return (0, s1) \<and>
      steely_memdev_cleanup s1 = Return s2 \<and>
      trace s2 = trace s1 @
        [call_rtdm_dev_unregister sysmem_device,
         call_rtdm_dev_unregister (umm_devices UMM_SHARED),
         call_rtdm_dev_unregister (umm_devices UMM_PRIVATE),
         call_steely_umm_free steely_kernel_ppd_umm (Some 0x200040),
         call_xnheap_destroy steely_kernel_ppd_umm,
         call_vfree 0x200000])"
proof -
  have a: "shared_heap_bytes cfg0 = 4096" "sizeof_nkvdso cfg0 = 8"
    by (simp_all add: shared_heap_bytes_def PAGE_ALIGN_def PAGE_SIZE_def cfg0_def)
  note hosts = good_host_def shared_register_fail_host_def boot_state_def UMM_SHARED_def
    UMM_PRIVATE_def
  note steps = step_calls_def failed_step_calls_def step_result_def undo_calls_def
    vmalloc_prot_def
  have f: "1 \<le> (4::nat) \<and> (4::nat) \<le> 5 \<and>
      (\<forall>j. 1 \<le> j \<and> j < 4 \<longrightarrow> step_result shared_register_fail_host j = 0) \<and>
      step_result shared_register_fail_host 4 \<noteq> 0"
    by (auto simp: step_result_def shared_register_fail_host_def concrete_defs errno_defs)
  have g: "\<forall>j. 1 \<le> j \<and> j \<le> 5 \<longrightarrow> step_result good_host j = 0"
    by (auto simp: step_result_def concrete_defs)
  from steely_memdev_init_unwinds [of 4 shared_register_fail_host cfg0 boot_state] f
  have "\<exists>s'. steely_memdev_init shared_register_fail_host cfg0 boot_state =
           Return (step_result shared_register_fail_host 4, s') \<and>
         trace s' = trace boot_state @
           concat (map (step_calls shared_register_fail_host cfg0) [1..<4]) @
           failed_step_calls shared_register_fail_host cfg0 4 @
           concat (map (undo_calls shared_register_fail_host) (rev [1..<4]))"
    by blast
  then have one: "\<exists>s'. steely_memdev_init shared_register_fail_host cfg0 boot_state =
      Return (- EINVAL, s') \<and>
      trace s' =
        [call_vmalloc 4096 [GFP_KERNEL, GFP_ZERO] PAGE_KERNEL,
         call_xnheap_init steely_kernel_ppd_umm 0x200000 4096,
         call_steely_umm_alloc steely_kernel_ppd_umm 8,
         call_rtdm_dev_register (umm_devices UMM_PRIVATE),
         call_rtdm_dev_register (umm_devices UMM_SHARED),
         call_rtdm_dev_unregister (umm_devices UMM_PRIVATE),
         call_steely_umm_free steely_kernel_ppd_umm (Some 0x200040),
         call_xnheap_destroy steely_kernel_ppd_umm,
         call_vfree 0x200000]"
    by (simp add: upt_steps steps a hosts)
  from steely_memdev_init_unwinds [of 1 good_host cfg0 boot_state] g
  have "\<exists>s1 s2. steely_memdev_init good_host cfg0 boot_state = Return (0, s1) \<and>
         trace s1 = trace boot_state @ concat (map (step_calls good_host cfg0) [1..<6]) \<and>
         steely_memdev_cleanup s1 = Return s2 \<and>
         trace s2 = trace s1 @ concat (map (undo_calls good_host) (rev [1..<6]))"
    by blast
  then have two: "\<exists>s1 s2. steely_memdev_init good_host cfg0 boot_state = Return (0, s1) \<and>
      steely_memdev_cleanup s1 = Return s2 \<and>
      trace s2 = trace s1 @
        [call_rtdm_dev_unregister sysmem_device,
         call_rtdm_dev_unregister (umm_devices UMM_SHARED),
         call_rtdm_dev_unregister (umm_devices UMM_PRIVATE),
         call_steely_umm_free steely_kernel_ppd_umm (Some 0x200040),
         call_xnheap_destroy steely_kernel_ppd_umm,
         call_vfree 0x200000]"
    by (auto simp: upt_steps steps a hosts)
  from one two show ?thesis by blast
qed

end
